theory Spec2Isabelle
  imports Main "HOL-Library.AList"
begin

section \<open>The model lifecycle of \<open>pygenn.genn_model.GeNNModel\<close>\<close>

text \<open>
  A shallow embedding of the class \<open>GeNNModel\<close> of \<open>src/pygenn/genn_model.py\<close>
  and of the module-level code that fills \<open>backend_modules\<close>. The Python object is a
  record, every method is a function from the record to an optional exception and the
  record after the call (an exception leaves the attributes assigned before it in place,
  and the instance can still be used afterwards). Calls that leave the file (the native
  base class \<open>ModelSpecInternal\<close>, the shared library model \<open>_slm\<close>, the backend
  module, the population mix-ins, \<open>check_call\<close>) are appended to a log kept in the
  record, and an environment decides for each of them whether it raises.
\<close>

subsection \<open>Exceptions\<close>

text \<open>
  The exceptions the file raises itself, by Python class, with the message where the
  source gives one. \<open>Raised\<close> is an exception that comes out of a call that leaves
  the file.
\<close>

datatype error =
    Exception string
  | ValueError string
  | KeyError string
  | NameError string
  | AttributeError string
  | IndexError
  | AssertionError
  | Raised string

datatype warning = DeprecationWarning string

subsection \<open>Populations and arguments\<close>

text \<open>
  Of a population object the class reads \<open>extra_global_params\<close> (a dictionary from
  the parameter's name to an object with the flag \<open>needsAllocation\<close>) and tests
  whether it is a \<open>NeuronGroup\<close>. The objects themselves are made by the native base
  class, so a registration takes the object the base class returns as an argument.
\<close>

record egp =
  needsAllocation :: bool

record population =
  pop_id :: string
  extra_global_params :: "(string \<times> egp) list"

text \<open>
  The \<open>source\<close>, \<open>target\<close> and \<open>pop\<close> arguments: a string, a \<open>NeuronGroup\<close>
  object, or an object of any other class.
\<close>

datatype group_arg =
    Str string
  | NeuronGroupObj population
  | OtherObj

datatype kind = Neuron | Synapse | CurrentSrc | CustomUpd

datatype slm_class = SharedLibraryModelFloat | SharedLibraryModelDouble

datatype np_type = float32 | float64

subsection \<open>Calls that leave the file\<close>

datatype call =
    GetModel
  | SuperAddNeuronPopulation string int
  | InitGroup string
  | SuperAddSynapsePopulation string string string
  | SuperAddCurrentSource string string
  | SuperAddCustomUpdate string string
  | Finalize
  | Preferences string
  | CreateBackend string string "(string \<times> string) list"
  | GenerateCode string string bool
  | Msbuild string
  | Make "nat option" string
  | SlmOpen string string
  | SlmAllocateMem
  | SlmAllocateRecordingBuffers int
  | LoadInitEgps kind string
  | SlmInitialize
  | NeuronLoad string "int option"
  | GroupLoad kind string
  | SlmInitializeSparse
  | SlmStepTime
  | SlmCustomUpdate string
  | SlmPullConnectivityFromDevice string
  | SlmPushSpikesToDevice string
  | SlmPushSpikeEventsToDevice string
  | SlmPushCurrentSpikesToDevice string
  | SlmPushCurrentSpikeEventsToDevice string
  | SlmPushConnectivityToDevice string
  | SlmPushVarToDevice string string
  | SlmPushExtraGlobalParam string string int
  | SlmPullRecordingBuffersFromDevice
  | SlmFreeExtraGlobalParam string string
  | SlmAccess string

type_synonym env = "call \<Rightarrow> error option"

subsection \<open>The module and its host\<close>

text \<open>
  What the methods read from outside the instance: the module-level dictionary
  \<open>backend_modules\<close> (its keys, in insertion order; a module is named by its key),
  the names bound in the module's global namespace with their values, and the host
  (\<open>platform.system()\<close>, \<open>os.path.join\<close>, \<open>psutil.cpu_count(logical=False)\<close>, the directory of the
  file joined with \<open>share\<close>, and the attributes a backend's \<open>Preferences\<close> object
  has).
\<close>

datatype pyval =
    Opaque
  | Groups "(string \<times> population) list"

record world =
  w_backend_modules :: "string list"
  w_globals :: "(string \<times> pyval) list"
  w_system :: string
  w_path_join :: "string \<Rightarrow> string \<Rightarrow> string"
  w_cpu_count :: "nat option"
  w_share_path :: string
  w_pref_fields :: "string list"

text \<open>
  The global namespace the file builds when it is imported: the names its import
  statements, assignments, \<open>for\<close> loop, class and function definitions bind. There is
  no statement that binds \<open>genn\<close>, \<open>genn_wrapper\<close> or \<open>custom_updates\<close>:
  \<open>from .genn import (\<dots>)\<close> binds only the listed names.
\<close>

definition genn_model_globals :: "(string \<times> pyval) list" where
  "genn_model_globals = map (\<lambda>n. (n, Opaque))
     [''OrderedDict'', ''import_module'', ''path'', ''system'', ''cpu_count'',
      ''check_call'', ''dedent'', ''warn'', ''proxy'', ''np'', ''iteritems'',
      ''itervalues'', ''string_types'', ''CurrentSource'', ''ModelSpecInternal'',
      ''NeuronGroup'', ''PlogSeverity'', ''SynapseGroup'', ''VarLocation'',
      ''SharedLibraryModelDouble'', ''SharedLibraryModelFloat'', ''NeuronGroupMixin'',
      ''get_model'', ''neuron_models'', ''backend_modules'', ''b'', ''m'', ''GeNNModel'',
      ''init_var'', ''init_connectivity'', ''init_toeplitz_connectivity'',
      ''create_var_ref'', ''create_psm_var_ref'', ''create_wu_pre_var_ref'',
      ''create_wu_post_var_ref'', ''create_wu_var_ref'', ''create_custom_neuron_class'',
      ''create_custom_postsynaptic_class'', ''create_custom_weight_update_class'',
      ''create_custom_current_source_class'', ''create_custom_custom_update_class'',
      ''create_custom_model_class'', ''create_dpf_class'', ''create_cmlf_class'',
      ''create_cksf_class'', ''create_custom_init_var_snippet_class'',
      ''create_custom_sparse_connect_init_snippet_class'']"




subsection \<open>The instance\<close>

text \<open>
  \<open>path_to_model\<close>, \<open>backend_name\<close> and \<open>backend_module\<close> are attributes that do
  not exist before their first assignment. \<open>recording_in_use\<close> is a property of the
  native base class, read by \<open>load\<close> and \<open>pull_recording_buffers_from_device\<close>; it
  is kept as a field. \<open>calls\<close> is the log of the calls that left the file and
  \<open>warnings\<close> the log of \<open>warn\<close>.
\<close>

record genn_model =
  time_precision :: string
  slm :: slm_class
  built :: bool
  loaded :: bool
  backend_name :: "string option"
  backend_module :: "string option"
  preferences :: "(string \<times> string) list"
  name :: string
  path_to_model :: "string option"
  neuron_populations :: "(string \<times> population) list"
  synapse_populations :: "(string \<times> population) list"
  current_sources :: "(string \<times> population) list"
  custom_updates :: "(string \<times> population) list"
  scalar :: np_type
  recording_in_use :: bool
  calls :: "call list"
  warnings :: "warning list"

type_synonym outcome = "error option \<times> genn_model"

text \<open>One call that leaves the file: it is logged, and the environment decides.\<close>

definition invoke :: "env \<Rightarrow> call \<Rightarrow> genn_model \<Rightarrow> outcome" where
  "invoke env c m = (env c, m\<lparr>calls := calls m @ [c]\<rparr>)"

text \<open>Statements in sequence: the first exception ends them.\<close>

definition and_then :: "outcome \<Rightarrow> (genn_model \<Rightarrow> outcome) \<Rightarrow> outcome" where
  "and_then r f = (case r of (Some e, m) \<Rightarrow> (Some e, m) | (None, m) \<Rightarrow> f m)"

fun invoke_all :: "env \<Rightarrow> call list \<Rightarrow> genn_model \<Rightarrow> outcome" where
  "invoke_all env [] m = (None, m)"
| "invoke_all env (c # cs) m = and_then (invoke env c m) (invoke_all env cs)"

subsection \<open>Construction and the backend\<close>

text \<open>The setter of the property \<open>backend_name\<close>.\<close>

definition set_backend_name :: "world \<Rightarrow> string option \<Rightarrow> genn_model \<Rightarrow> outcome" where
  "set_backend_name w backend m =
     (if built m then (Some (Exception ''GeNN model already built''), m)
      else case backend of
        None \<Rightarrow>
          (case w_backend_modules w of
             [] \<Rightarrow> (Some AssertionError, m)
           | b # _ \<Rightarrow> (None, m\<lparr>backend_name := Some b, backend_module := Some b\<rparr>))
      | Some b \<Rightarrow>
          (let m' = m\<lparr>backend_name := Some b\<rparr>
           in if b \<in> set (w_backend_modules w)
              then (None, m'\<lparr>backend_module := Some b\<rparr>)
              else (Some (KeyError b), m')))"

text \<open>
  \<open>__init__\<close>. The message of the \<open>ValueError\<close> for an unsupported time precision
  is built with \<open>"\<dots> '{1}' was given".format(self._time_precision)\<close>: the format
  string asks for a second positional argument and only one is passed, so the
  \<open>format\<close> call raises \<open>IndexError\<close> before the \<open>ValueError\<close> is made. The check
  of \<open>precision\<close> stands inside a string literal headed \<open>TODO\<close> and is not run;
  \<open>precision\<close> is read again only to choose the \<open>scalar\<close> type. A new model
  has no population, so recording is not in use.
\<close>

definition init ::
  "world \<Rightarrow> string \<Rightarrow> string \<Rightarrow> string option \<Rightarrow> string option \<Rightarrow>
     (string \<times> string) list \<Rightarrow> error + genn_model" where
  "init w precision model_name backend time_precision_arg preference_kwargs =
     (let tp = (case time_precision_arg of None \<Rightarrow> precision | Some t \<Rightarrow> t)
      in if tp = ''float'' \<or> tp = ''double'' then
           (let m0 = \<lparr>time_precision = tp,
                      slm = (if tp = ''float'' then SharedLibraryModelFloat
                             else SharedLibraryModelDouble),
                      built = False, loaded = False,
                      backend_name = None, backend_module = None,
                      preferences = [], name = [], path_to_model = None,
                      neuron_populations = [], synapse_populations = [],
                      current_sources = [], custom_updates = [],
                      scalar = float64, recording_in_use = False,
                      calls = [], warnings = []\<rparr>
            in case set_backend_name w backend m0 of
                 (Some e, _) \<Rightarrow> Inl e
               | (None, m1) \<Rightarrow>
                   Inr (m1\<lparr>preferences := preference_kwargs, name := model_name,
                           scalar := (if precision = ''float'' then float32 else float64)\<rparr>))
         else Inl IndexError)"

subsection \<open>Registration\<close>

text \<open>
  \<open>_validate_neuron_group(group, context)\<close>: a string is looked up in
  \<open>neuron_populations\<close>; a \<open>NeuronGroup\<close> object is returned as it is, without a
  look-up; anything else is refused. The messages are built with \<open>%\<close> from the
  context and the name, each between single quotes.
\<close>

definition quoted :: "string \<Rightarrow> string" where
  "quoted s = [CHR 0x27] @ s @ [CHR 0x27]"

definition validate_neuron_group ::
  "genn_model \<Rightarrow> group_arg \<Rightarrow> string \<Rightarrow> error + population" where
  "validate_neuron_group m grp ctx =
     (case grp of
        Str s \<Rightarrow>
          (case map_of (neuron_populations m) s of
             Some g \<Rightarrow> Inr g
           | None \<Rightarrow>
               Inl (ValueError (quoted ctx @ '' neuron group '' @ quoted s
                                @ '' not found'')))
      | NeuronGroupObj g \<Rightarrow> Inr g
      | OtherObj \<Rightarrow>
          Inl (ValueError (quoted ctx @ '' must be a NeuronGroup or string'')))"

text \<open>
  The four \<open>add_\<dots>\<close> methods. The model and parameter arguments are passed on to the
  base class unread and are left out; the last argument before the instance is the
  object the base class returns. A dictionary assignment replaces the value of a key
  that is present and appends a new key otherwise.
\<close>

definition add_neuron_population ::
  "env \<Rightarrow> string \<Rightarrow> int \<Rightarrow> population \<Rightarrow> genn_model \<Rightarrow> outcome" where
  "add_neuron_population env pop_name num_neurons n_group m =
     (if built m then (Some (Exception ''GeNN model already built''), m)
      else and_then
             (invoke_all env [GetModel, SuperAddNeuronPopulation pop_name num_neurons,
                              InitGroup pop_name] m)
             (\<lambda>m'. (None, m'\<lparr>neuron_populations :=
                                AList.update pop_name n_group (neuron_populations m')\<rparr>)))"

definition add_synapse_population ::
  "env \<Rightarrow> string \<Rightarrow> group_arg \<Rightarrow> group_arg \<Rightarrow> population \<Rightarrow> genn_model \<Rightarrow> outcome" where
  "add_synapse_population env pop_name source target s_group m =
     (if built m then (Some (Exception ''GeNN model already built''), m)
      else case validate_neuron_group m source ''source'' of
        Inl e \<Rightarrow> (Some e, m)
      | Inr src \<Rightarrow>
          (case validate_neuron_group m target ''target'' of
             Inl e \<Rightarrow> (Some e, m)
           | Inr tgt \<Rightarrow>
               and_then
                 (invoke env (SuperAddSynapsePopulation pop_name (pop_id src) (pop_id tgt)) m)
                 (\<lambda>m'. (None, m'\<lparr>synapse_populations :=
                                    AList.update pop_name s_group (synapse_populations m')\<rparr>))))"

definition add_current_source ::
  "env \<Rightarrow> string \<Rightarrow> group_arg \<Rightarrow> population \<Rightarrow> genn_model \<Rightarrow> outcome" where
  "add_current_source env cs_name pop c_source m =
     (if built m then (Some (Exception ''GeNN model already built''), m)
      else case validate_neuron_group m pop ''pop'' of
        Inl e \<Rightarrow> (Some e, m)
      | Inr p \<Rightarrow>
          and_then
            (invoke env (SuperAddCurrentSource cs_name (pop_id p)) m)
            (\<lambda>m'. (None, m'\<lparr>current_sources :=
                               AList.update cs_name c_source (current_sources m')\<rparr>)))"

definition add_custom_update ::
  "env \<Rightarrow> string \<Rightarrow> string \<Rightarrow> population \<Rightarrow> genn_model \<Rightarrow> outcome" where
  "add_custom_update env cu_name group_name c_update m =
     (if built m then (Some (Exception ''GeNN model already built''), m)
      else and_then
             (invoke env (SuperAddCustomUpdate cu_name group_name) m)
             (\<lambda>m'. (None, m'\<lparr>custom_updates :=
                                AList.update cu_name c_update (custom_updates m')\<rparr>)))"

subsection \<open>build\<close>

text \<open>
  \<open>os.path.join\<close> is the join of the host, \<open>posixpath.join\<close> or
  \<open>ntpath.join\<close>, and is read from the world. This is the join of two components
  on a POSIX host.
\<close>

definition posixpath_join :: "string \<Rightarrow> string \<Rightarrow> string" where
  "posixpath_join a b =
     (if b \<noteq> [] \<and> hd b = CHR ''/'' then b
      else if a = [] \<or> last a = CHR ''/'' then a @ b
      else a @ ''/'' @ b)"

text \<open>
  \<open>build\<close>: the guard, then \<open>finalize\<close>, the backend's \<open>Preferences\<close> with the
  keyword arguments it has an attribute for, \<open>create_backend\<close>,
  \<open>genn.generate_code\<close> (the global name \<open>genn\<close> is looked up first), the build
  command of the host, and only then \<open>_built = True\<close>. \<open>model_name\<close> is read from
  the base class and is taken to be the name given at construction. The value returned
  on success, \<open>mem_alloc\<close>, is not modelled.
\<close>

definition build :: "world \<Rightarrow> env \<Rightarrow> string \<Rightarrow> bool \<Rightarrow> genn_model \<Rightarrow> outcome" where
  "build w env path_to_model_arg force_rebuild m =
     (if built m then (Some (Exception ''GeNN model already built''), m)
      else
        (let m1 = m\<lparr>path_to_model := Some path_to_model_arg\<rparr>;
             output_path = w_path_join w path_to_model_arg (name m @ ''_CODE'')
         in and_then (invoke env Finalize m1) (\<lambda>m2.
              case backend_module m2 of
                None \<Rightarrow> (Some (AttributeError ''_backend_module''), m2)
              | Some bm \<Rightarrow>
                  and_then
                    (invoke_all env
                       [Preferences bm,
                        CreateBackend bm output_path
                          (filter (\<lambda>(k, v). k \<in> set (w_pref_fields w)) (preferences m2))] m2)
                    (\<lambda>m3.
                       case map_of (w_globals w) ''genn'' of
                         None \<Rightarrow> (Some (NameError ''genn''), m3)
                       | Some _ \<Rightarrow>
                           and_then
                             (invoke_all env
                                [GenerateCode (w_share_path w) output_path force_rebuild,
                                 (if w_system w = ''Windows''
                                  then Msbuild (w_path_join w output_path ''runner.vcxproj'')
                                  else Make (w_cpu_count w) output_path)] m3)
                             (\<lambda>m4. (None, m4\<lparr>built := True\<rparr>))))))"

subsection \<open>load\<close>

definition load_calls :: "genn_model \<Rightarrow> int option \<Rightarrow> call list" where
  "load_calls m num_recording_timesteps =
     map (\<lambda>(k, v). LoadInitEgps Neuron k) (neuron_populations m)
     @ map (\<lambda>(k, v). LoadInitEgps Synapse k) (synapse_populations m)
     @ map (\<lambda>(k, v). LoadInitEgps CurrentSrc k) (current_sources m)
     @ map (\<lambda>(k, v). LoadInitEgps CustomUpd k) (custom_updates m)
     @ [SlmInitialize]
     @ map (\<lambda>(k, v). NeuronLoad k num_recording_timesteps) (neuron_populations m)
     @ map (\<lambda>(k, v). GroupLoad Synapse k) (synapse_populations m)
     @ map (\<lambda>(k, v). GroupLoad CurrentSrc k) (current_sources m)
     @ map (\<lambda>(k, v). GroupLoad CustomUpd k) (custom_updates m)
     @ [SlmInitializeSparse]"

text \<open>
  \<open>load\<close>: the only guard is on \<open>_loaded\<close>. Then \<open>open\<close> and \<open>allocate_mem\<close>;
  if recording is in use, the number of timesteps is required and the recording buffers
  are allocated; then the populations and the two initialisations, in the order of the
  source; at the end both flags are set.
\<close>

definition load :: "env \<Rightarrow> string \<Rightarrow> int option \<Rightarrow> genn_model \<Rightarrow> outcome" where
  "load env path_to_model_arg num_recording_timesteps m =
     (if loaded m then (Some (Exception ''GeNN model already loaded''), m)
      else
        (let m1 = m\<lparr>path_to_model := Some path_to_model_arg\<rparr>
         in and_then
              (invoke_all env [SlmOpen path_to_model_arg (name m1), SlmAllocateMem] m1)
              (\<lambda>m2. and_then
                 (if recording_in_use m2 then
                    (case num_recording_timesteps of
                       None \<Rightarrow>
                         (Some (Exception (''Cannot use recording system without passing ''
                                  @ ''number of recording timesteps to GeNNModel.load'')), m2)
                     | Some n \<Rightarrow> invoke env (SlmAllocateRecordingBuffers n) m2)
                  else (None, m2))
                 (\<lambda>m3. and_then
                    (invoke_all env (load_calls m3 num_recording_timesteps) m3)
                    (\<lambda>m4. (None, m4\<lparr>loaded := True, built := True\<rparr>))))))"

subsection \<open>Operations on a loaded model\<close>

definition step_time :: "env \<Rightarrow> genn_model \<Rightarrow> outcome" where
  "step_time env m =
     (if \<not> loaded m
      then (Some (Exception ''GeNN model has to be loaded before stepping''), m)
      else invoke env SlmStepTime m)"

definition custom_update :: "env \<Rightarrow> string \<Rightarrow> genn_model \<Rightarrow> outcome" where
  "custom_update env cu m =
     (if \<not> loaded m
      then (Some (Exception ''GeNN model has to be loaded before performing custom update''), m)
      else invoke env (SlmCustomUpdate cu) m)"

definition pull_connectivity_from_device :: "env \<Rightarrow> string \<Rightarrow> genn_model \<Rightarrow> outcome" where
  "pull_connectivity_from_device env pop_name m =
     (if \<not> loaded m
      then (Some (Exception ''GeNN model has to be loaded before pulling''), m)
      else invoke env (SlmPullConnectivityFromDevice pop_name) m)"

definition push_spikes_to_device :: "env \<Rightarrow> string \<Rightarrow> genn_model \<Rightarrow> outcome" where
  "push_spikes_to_device env pop_name m =
     (if \<not> loaded m
      then (Some (Exception ''GeNN model has to be loaded before pushing''), m)
      else invoke env (SlmPushSpikesToDevice pop_name) m)"

definition push_spike_events_to_device :: "env \<Rightarrow> string \<Rightarrow> genn_model \<Rightarrow> outcome" where
  "push_spike_events_to_device env pop_name m =
     (if \<not> loaded m
      then (Some (Exception ''GeNN model has to be loaded before pushing''), m)
      else invoke env (SlmPushSpikeEventsToDevice pop_name) m)"

definition push_current_spikes_to_device :: "env \<Rightarrow> string \<Rightarrow> genn_model \<Rightarrow> outcome" where
  "push_current_spikes_to_device env pop_name m =
     (if \<not> loaded m
      then (Some (Exception ''GeNN model has to be loaded before pushing''), m)
      else invoke env (SlmPushCurrentSpikesToDevice pop_name) m)"

definition push_current_spike_events_to_device ::
  "env \<Rightarrow> string \<Rightarrow> genn_model \<Rightarrow> outcome" where
  "push_current_spike_events_to_device env pop_name m =
     (if \<not> loaded m
      then (Some (Exception ''GeNN model has to be loaded before pushing''), m)
      else invoke env (SlmPushCurrentSpikeEventsToDevice pop_name) m)"

definition push_connectivity_to_device :: "env \<Rightarrow> string \<Rightarrow> genn_model \<Rightarrow> outcome" where
  "push_connectivity_to_device env pop_name m =
     (if \<not> loaded m
      then (Some (Exception ''GeNN model has to be loaded before pushing''), m)
      else invoke env (SlmPushConnectivityToDevice pop_name) m)"

definition push_var_to_device :: "env \<Rightarrow> string \<Rightarrow> string \<Rightarrow> genn_model \<Rightarrow> outcome" where
  "push_var_to_device env pop_name var_name m =
     (if \<not> loaded m
      then (Some (Exception ''GeNN model has to be loaded before pushing''), m)
      else invoke env (SlmPushVarToDevice pop_name var_name) m)"

text \<open>
  \<open>push_extra_global_param_to_device\<close>: the test of \<open>size\<close>, with the warning and
  the default, is the first statement; the test of \<open>_loaded\<close> is the second. \<open>warn\<close>
  is taken to return, as it does unless the warning filter turns the category into an
  exception.
\<close>

definition size_deprecation :: warning where
  "size_deprecation =
     DeprecationWarning (''The default of size=1 is very counter-intuitive and ''
                         @ ''will be removed in future'')"

definition push_extra_global_param_to_device ::
  "env \<Rightarrow> string \<Rightarrow> string \<Rightarrow> int option \<Rightarrow> genn_model \<Rightarrow> outcome" where
  "push_extra_global_param_to_device env pop_name egp_name size_arg m =
     (let (sz, m1) =
            (case size_arg of
               None \<Rightarrow> (1, m\<lparr>warnings := warnings m @ [size_deprecation]\<rparr>)
             | Some s \<Rightarrow> (s, m))
      in if \<not> loaded m1
         then (Some (Exception ''GeNN model has to be loaded before pushing''), m1)
         else invoke env (SlmPushExtraGlobalParam pop_name egp_name sz) m1)"

definition pull_recording_buffers_from_device :: "env \<Rightarrow> genn_model \<Rightarrow> outcome" where
  "pull_recording_buffers_from_device env m =
     (if \<not> loaded m
      then (Some (Exception
              ''GeNN model has to be loaded before pulling recording buffers''), m)
      else if \<not> recording_in_use m
      then (Some (Exception
              ''Cannot pull recording buffer if recording system is not in use''), m)
      else invoke env SlmPullRecordingBuffersFromDevice m)"

text \<open>
  The properties \<open>t\<close>, \<open>timestep\<close> (read and written),
  \<open>free_device_mem_bytes\<close>, the six timing properties and the two
  \<open>get_custom_update_\<dots>time\<close> methods: each passes straight on to the member of
  \<open>_slm\<close> it names, without a test of the state.
\<close>

definition slm_access :: "env \<Rightarrow> string \<Rightarrow> genn_model \<Rightarrow> outcome" where
  "slm_access env member m = invoke env (SlmAccess member) m"

subsection \<open>end\<close>

text \<open>
  The two inner loops of \<open>end\<close> over one dictionary of populations: the calls of
  \<open>free_extra_global_param\<close> they make, in order.
\<close>

definition egp_frees :: "string \<Rightarrow> population \<Rightarrow> call list" where
  "egp_frees g_name g_dat =
     map (\<lambda>(egp_name, egp_dat). SlmFreeExtraGlobalParam g_name egp_name)
       (filter (\<lambda>(egp_name, egp_dat). needsAllocation egp_dat) (extra_global_params g_dat))"

definition group_frees :: "(string \<times> population) list \<Rightarrow> call list" where
  "group_frees grp = concat (map (\<lambda>(g_name, g_dat). egp_frees g_name g_dat) grp)"

text \<open>
  \<open>end\<close>. The list the outer loop runs over is built first:
  \<open>[self.neuron_populations, self.synapse_populations, self.current_sources,
  custom_updates]\<close>. Its last element is the global name \<open>custom_updates\<close>, not the
  attribute; when the name is not bound the list is never built. When it is bound, its
  value is iterated after the three dictionaries of the instance.
\<close>

definition end_model :: "world \<Rightarrow> env \<Rightarrow> genn_model \<Rightarrow> outcome" where
  "end_model w env m =
     (case map_of (w_globals w) ''custom_updates'' of
        None \<Rightarrow> (Some (NameError ''custom_updates''), m)
      | Some v \<Rightarrow>
          and_then
            (invoke_all env (group_frees (neuron_populations m)
                             @ group_frees (synapse_populations m)
                             @ group_frees (current_sources m)) m)
            (\<lambda>m'. case v of
                     Groups d \<Rightarrow> invoke_all env (group_frees d) m'
                   | Opaque \<Rightarrow> (Some (AttributeError ''items''), m')))"

subsection \<open>Sequences of calls on one instance\<close>

datatype device_op =
    StepTime
  | CustomUpdate string
  | PullConnectivityFromDevice string
  | PushSpikesToDevice string
  | PushSpikeEventsToDevice string
  | PushCurrentSpikesToDevice string
  | PushCurrentSpikeEventsToDevice string
  | PushConnectivityToDevice string
  | PushVarToDevice string string
  | PushExtraGlobalParamToDevice string string "int option"
  | PullRecordingBuffersFromDevice

fun device :: "env \<Rightarrow> device_op \<Rightarrow> genn_model \<Rightarrow> outcome" where
  "device env StepTime m = step_time env m"
| "device env (CustomUpdate cu) m = custom_update env cu m"
| "device env (PullConnectivityFromDevice p) m = pull_connectivity_from_device env p m"
| "device env (PushSpikesToDevice p) m = push_spikes_to_device env p m"
| "device env (PushSpikeEventsToDevice p) m = push_spike_events_to_device env p m"
| "device env (PushCurrentSpikesToDevice p) m = push_current_spikes_to_device env p m"
| "device env (PushCurrentSpikeEventsToDevice p) m =
     push_current_spike_events_to_device env p m"
| "device env (PushConnectivityToDevice p) m = push_connectivity_to_device env p m"
| "device env (PushVarToDevice p v) m = push_var_to_device env p v m"
| "device env (PushExtraGlobalParamToDevice p e s) m =
     push_extra_global_param_to_device env p e s m"
| "device env PullRecordingBuffersFromDevice m = pull_recording_buffers_from_device env m"

datatype op =
    AddNeuronPopulation string int population
  | AddSynapsePopulation string group_arg group_arg population
  | AddCurrentSource string group_arg population
  | AddCustomUpdate string string population
  | SetBackendName "string option"
  | Build string bool
  | Load string "int option"
  | Device device_op
  | Access string
  | End

fun exec :: "world \<Rightarrow> env \<Rightarrow> op \<Rightarrow> genn_model \<Rightarrow> outcome" where
  "exec w env (AddNeuronPopulation n k g) m = add_neuron_population env n k g m"
| "exec w env (AddSynapsePopulation n s t g) m = add_synapse_population env n s t g m"
| "exec w env (AddCurrentSource n p g) m = add_current_source env n p g m"
| "exec w env (AddCustomUpdate n gn g) m = add_custom_update env n gn g m"
| "exec w env (SetBackendName b) m = set_backend_name w b m"
| "exec w env (Build p f) m = build w env p f m"
| "exec w env (Load p n) m = load env p n m"
| "exec w env (Device d) m = device env d m"
| "exec w env (Access a) m = slm_access env a m"
| "exec w env End m = end_model w env m"

text \<open>
  A client that catches every exception and goes on with the same instance: each call
  comes with the environment it runs in, and the result is the list of calls with what
  each one raised, and the instance at the end.
\<close>

fun run :: "world \<Rightarrow> (env \<times> op) list \<Rightarrow> genn_model \<Rightarrow> (op \<times> error option) list \<times> genn_model" where
  "run w [] m = ([], m)"
| "run w ((env, oper) # rest) m =
     (case exec w env oper m of
        (r, m') \<Rightarrow> (case run w rest m' of (rs, m'') \<Rightarrow> ((oper, r) # rs, m'')))"

definition build_successes :: "(op \<times> error option) list \<Rightarrow> nat" where
  "build_successes rs =
     length (filter (\<lambda>(oper, r). (case oper of Build p f \<Rightarrow> r = None | _ \<Rightarrow> False)) rs)"

subsection \<open>What a list of calls does\<close>

text \<open>
  Of a list of calls made in sequence: the calls that are made (up to and with the first
  one that raises) and the exception that ends them, if any.
\<close>

fun attempted :: "env \<Rightarrow> call list \<Rightarrow> call list" where
  "attempted env [] = []"
| "attempted env (c # cs) = c # (case env c of None \<Rightarrow> attempted env cs | Some e \<Rightarrow> [])"

fun raised :: "env \<Rightarrow> call list \<Rightarrow> error option" where
  "raised env [] = None"
| "raised env (c # cs) = (case env c of None \<Rightarrow> raised env cs | Some e \<Rightarrow> Some e)"

subsection \<open>Concrete hosts, environments and instances\<close>

text \<open>An environment in which no call raises, and one in which \<open>finalize\<close> does.\<close>

definition no_failure :: env where
  "no_failure c = None"

definition finalize_fails :: env where
  "finalize_fails c = (if c = Finalize then Some (Raised ''finalize'') else None)"

text \<open>
  Environments in which only \<open>step_time\<close> of the runtime raises, and in which only
  its \<open>initialize\<close> does.
\<close>

definition step_time_fails :: env where
  "step_time_fails c = (if c = SlmStepTime then Some (Raised ''step_time'') else None)"

definition initialize_fails :: env where
  "initialize_fails c = (if c = SlmInitialize then Some (Raised ''initialize'') else None)"

text \<open>
  A POSIX host on which only the CPU backend imports, with the namespace of the file;
  and the same host with the name \<open>genn\<close> bound in addition, as it would be after
  \<open>from . import genn\<close>.
\<close>

definition posix_host :: world where
  "posix_host = \<lparr>w_backend_modules = [''single_threaded_cpu''],
                  w_globals = genn_model_globals, w_system = ''Linux'',
                  w_path_join = posixpath_join,
                  w_cpu_count = Some 4, w_share_path = ''/pygenn/share'',
                  w_pref_fields = []\<rparr>"

definition genn_bound_host :: world where
  "genn_bound_host = posix_host\<lparr>w_globals := (''genn'', Opaque) # genn_model_globals\<rparr>"


text \<open>\<open>GeNNModel()\<close> on that host, as \<open>__init__\<close> leaves it.\<close>

definition fresh :: genn_model where
  "fresh = \<lparr>time_precision = ''float'', slm = SharedLibraryModelFloat,
            built = False, loaded = False,
            backend_name = Some ''single_threaded_cpu'',
            backend_module = Some ''single_threaded_cpu'',
            preferences = [], name = ''GeNNModel'', path_to_model = None,
            neuron_populations = [], synapse_populations = [],
            current_sources = [], custom_updates = [],
            scalar = float32, recording_in_use = False,
            calls = [], warnings = []\<rparr>"

text \<open>
  The same instance after \<open>load()\<close>; and an instance with one neuron population
  \<open>pop\<close> on which recording is in use.
\<close>

definition running :: genn_model where
  "running = snd (load no_failure ''./'' None fresh)"

definition recording :: genn_model where
  "recording = fresh\<lparr>neuron_populations :=
                        [(''pop'', \<lparr>pop_id = ''pop'', extra_global_params = []\<rparr>)],
                      recording_in_use := True\<rparr>"

text \<open>
  A neuron group that belongs to no registry of \<open>fresh\<close>, a synapse group, and an
  instance with one neuron population that has one extra global parameter allocated by
  the runtime and one allocated by the caller.
\<close>

definition stray :: population where
  "stray = \<lparr>pop_id = ''elsewhere'', extra_global_params = []\<rparr>"

definition syn :: population where
  "syn = \<lparr>pop_id = ''syn'', extra_global_params = []\<rparr>"

definition with_egp :: genn_model where
  "with_egp = fresh\<lparr>neuron_populations :=
       [(''pop'', \<lparr>pop_id = ''pop'',
                   extra_global_params = [(''auto'', \<lparr>needsAllocation = True\<rparr>),
                                          (''manual'', \<lparr>needsAllocation = False\<rparr>)]\<rparr>)]\<rparr>"





section \<open>Properties\<close>

subsection \<open>Sequencing\<close>

lemma and_then_Some: "and_then (Some e, m) f = (Some e, m)"
  by (simp add: and_then_def)

lemma and_then_None: "and_then (None, m) f = f m"
  by (simp add: and_then_def)

lemma invoke_all_eq:
  "invoke_all env cs m = (raised env cs, m\<lparr>calls := calls m @ attempted env cs\<rparr>)"
proof (induction cs arbitrary: m)
  case Nil
  show ?case by simp
next
  case (Cons c cs)
  show ?case
  proof (cases "env c")
    case None
    then show ?thesis by (simp add: invoke_def Cons and_then_None)
  next
    case (Some e)
    then show ?thesis by (simp add: invoke_def and_then_Some)
  qed
qed

lemma attempted_all: "\<forall>c. env c = None \<Longrightarrow> attempted env cs = cs"
  by (induction cs) simp_all

lemma raised_all: "\<forall>c. env c = None \<Longrightarrow> raised env cs = None"
  by (induction cs) simp_all

lemma set_attempted: "set (attempted env cs) \<subseteq> set cs"
  by (induction cs) (auto split: option.splits)


lemma running_eq:
  "running = fresh\<lparr>path_to_model := Some ''./'',
                   calls := [SlmOpen ''./'' ''GeNNModel'', SlmAllocateMem, SlmInitialize,
                             SlmInitializeSparse],
                   loaded := True, built := True\<rparr>"
  by (simp add: running_def load_def invoke_all_eq load_calls_def no_failure_def fresh_def
                and_then_None)

subsection \<open>load\<close>

lemma load_calls_no_recording_buffers:
  "SlmAllocateRecordingBuffers k \<notin> set (load_calls m a)"
  by (auto simp: load_calls_def)

text \<open>
  C1 (as the code has it). \<open>load\<close> does not read the built flag. A model that is
  already loaded is refused with \<open>Exception("GeNN model already loaded")\<close> and is left
  as it was, so nothing is opened or allocated. On a model that is not loaded, built or
  not, the first thing \<open>load\<close> does is to call \<open>open\<close> of the runtime with the path
  and the model name; and whenever \<open>load\<close> returns without an exception, both the
  loaded and the built flag are set.
\<close>

theorem load_checks_loaded_only:
  "(loaded m \<longrightarrow> load env p n m = (Some (Exception ''GeNN model already loaded''), m))
   \<and> (\<not> loaded m \<longrightarrow>
        take (Suc (length (calls m))) (calls (snd (load env p n m)))
          = calls m @ [SlmOpen p (name m)])
   \<and> (fst (load env p n m) = None \<longrightarrow>
        loaded (snd (load env p n m)) \<and> built (snd (load env p n m)))"
  by (auto simp: load_def invoke_all_eq invoke_def and_then_def Let_def
           split: option.splits if_splits prod.splits)

text \<open>
  The statement above on the loaded instance \<open>running\<close> and on the new instance
  \<open>fresh\<close>.
\<close>

theorem load_checks_loaded_only_witness:
  "loaded running
   \<and> load no_failure ''./'' None running
       = (Some (Exception ''GeNN model already loaded''), running)
   \<and> \<not> loaded fresh
   \<and> take (Suc (length (calls fresh))) (calls (snd (load no_failure ''./'' None fresh)))
       = calls fresh @ [SlmOpen ''./'' (name fresh)]
   \<and> fst (load no_failure ''./'' None fresh) = None
   \<and> loaded (snd (load no_failure ''./'' None fresh))
   \<and> built (snd (load no_failure ''./'' None fresh))"
proof -
  have l: "loaded running" by (simp add: running_eq)
  have n: "\<not> loaded fresh" by (simp add: fresh_def)
  have ok: "fst (load no_failure ''./'' None fresh) = None"
    by (simp add: load_def invoke_all_eq load_calls_def no_failure_def fresh_def
                  and_then_None)
  show ?thesis
    using l n ok load_checks_loaded_only [of running no_failure "''./''" None]
      load_checks_loaded_only [of fresh no_failure "''./''" None]
    by simp
qed

text \<open>
  C1 (as the claim has it) fails on a new instance, on which \<open>build\<close> was never
  called: \<open>load()\<close> raises nothing, opens the runtime, allocates, initialises, and
  leaves the instance loaded and built.
\<close>

theorem load_unbuilt_counterexample:
  "\<not> built fresh \<and> \<not> loaded fresh
   \<and> load no_failure ''./'' None fresh = (None, running)
   \<and> calls running = [SlmOpen ''./'' ''GeNNModel'', SlmAllocateMem, SlmInitialize,
                       SlmInitializeSparse]
   \<and> loaded running \<and> built running"
  by (simp add: running_eq) (simp add: load_def invoke_all_eq load_calls_def no_failure_def fresh_def
                and_then_None)

lemma attempted_set: "\<forall>c\<in>set cs. env c = None \<Longrightarrow> attempted env cs = cs"
  by (induction cs) simp_all

lemma raised_set: "\<forall>c\<in>set cs. env c = None \<Longrightarrow> raised env cs = None"
  by (induction cs) simp_all

lemma attempted_no_raise: "raised env cs = None \<Longrightarrow> attempted env cs = cs"
  by (induction cs) (simp_all split: option.splits)

lemma load_with_count:
  "\<not> loaded m \<Longrightarrow> recording_in_use m \<Longrightarrow>
     load env p (Some n) m =
       (case raised env ([SlmOpen p (name m), SlmAllocateMem, SlmAllocateRecordingBuffers n]
                         @ load_calls m (Some n)) of
          None \<Rightarrow>
            (None,
             m\<lparr>path_to_model := Some p,
               calls := calls m @ [SlmOpen p (name m), SlmAllocateMem,
                                   SlmAllocateRecordingBuffers n] @ load_calls m (Some n),
               loaded := True, built := True\<rparr>)
        | Some e \<Rightarrow>
            (Some e,
             m\<lparr>path_to_model := Some p,
               calls := calls m
                 @ attempted env ([SlmOpen p (name m), SlmAllocateMem,
                                   SlmAllocateRecordingBuffers n] @ load_calls m (Some n))\<rparr>))"
proof -
  assume nl: "\<not> loaded m" and rec: "recording_in_use m"
  have lc: "\<And>cs. load_calls (m\<lparr>path_to_model := Some p, calls := cs\<rparr>) (Some n)
                  = load_calls m (Some n)"
    by (simp add: load_calls_def)
  show ?thesis
  proof (cases "env (SlmOpen p (name m))")
    case (Some e)
    then show ?thesis using nl by (simp add: load_def invoke_def and_then_def)
  next
    case o: None
    show ?thesis
    proof (cases "env SlmAllocateMem")
      case (Some e)
      then show ?thesis using nl o by (simp add: load_def invoke_def and_then_def)
    next
      case a: None
      show ?thesis
      proof (cases "env (SlmAllocateRecordingBuffers n)")
        case (Some e)
        then show ?thesis using nl rec o a by (simp add: load_def invoke_def and_then_def)
      next
        case r: None
        show ?thesis
        proof (cases "raised env (load_calls m (Some n))")
          case None
          then show ?thesis using nl rec o a r
            by (simp add: load_def invoke_def invoke_all_eq and_then_def lc
                          attempted_no_raise)
        next
          case (Some e)
          then show ?thesis using nl rec o a r
            by (simp add: load_def invoke_def invoke_all_eq and_then_def lc)
        qed
      qed
    qed
  qed
qed

text \<open>
  C5. With recording in use on a model that is not loaded: \<open>load\<close> without a number
  of timesteps, once \<open>open\<close> and \<open>allocate_mem\<close> have returned, raises
  \<open>Exception("Cannot use recording system without passing number of recording
  timesteps to GeNNModel.load")\<close>, and the only calls made are these two, so no
  recording buffer is allocated (and in every environment, and whether or not the model
  is loaded, \<open>load\<close> without the number raises an exception and allocates no
  recording buffer). \<open>load\<close> with the number \<open>n\<close>, once \<open>open\<close> and
  \<open>allocate_mem\<close> have returned, calls \<open>allocate_recording_buffers(n)\<close> as its
  third call; in every environment it makes the calls \<open>open\<close>, \<open>allocate_mem\<close>,
  \<open>allocate_recording_buffers(n)\<close> and those of the populations and the two
  initialisations, in this order, up to the first one that raises, and raises what that
  one raises; when none of these calls raises it returns normally with all of them made
  and the model loaded. None of the calls after the third allocates a recording buffer.
  With recording not in use, no call that \<open>load\<close> adds to the log allocates a
  recording buffer, whatever the argument and the environment.
\<close>

theorem load_recording:
  "(\<not> loaded m \<and> recording_in_use m \<and> env (SlmOpen p (name m)) = None
      \<and> env SlmAllocateMem = None \<longrightarrow>
      load env p None m =
        (Some (Exception (''Cannot use recording system without passing ''
                          @ ''number of recording timesteps to GeNNModel.load'')),
         m\<lparr>path_to_model := Some p,
           calls := calls m @ [SlmOpen p (name m), SlmAllocateMem]\<rparr>))
   \<and> (\<not> loaded m \<and> recording_in_use m \<and> env (SlmOpen p (name m)) = None
      \<and> env SlmAllocateMem = None \<longrightarrow>
      take (length (calls m) + 3) (calls (snd (load env p (Some n) m)))
        = calls m @ [SlmOpen p (name m), SlmAllocateMem, SlmAllocateRecordingBuffers n])
   \<and> (\<not> loaded m \<and> recording_in_use m \<longrightarrow>
      load env p (Some n) m =
        (case raised env ([SlmOpen p (name m), SlmAllocateMem, SlmAllocateRecordingBuffers n]
                          @ load_calls m (Some n)) of
           None \<Rightarrow>
             (None,
              m\<lparr>path_to_model := Some p,
                calls := calls m @ [SlmOpen p (name m), SlmAllocateMem,
                                    SlmAllocateRecordingBuffers n] @ load_calls m (Some n),
                loaded := True, built := True\<rparr>)
         | Some e \<Rightarrow>
             (Some e,
              m\<lparr>path_to_model := Some p,
                calls := calls m
                  @ attempted env ([SlmOpen p (name m), SlmAllocateMem,
                                    SlmAllocateRecordingBuffers n] @ load_calls m (Some n))\<rparr>)))
   \<and> (\<not> loaded m \<and> recording_in_use m
      \<and> (\<forall>c \<in> set ([SlmOpen p (name m), SlmAllocateMem, SlmAllocateRecordingBuffers n]
                      @ load_calls m (Some n)). env c = None) \<longrightarrow>
      load env p (Some n) m =
        (None,
         m\<lparr>path_to_model := Some p,
           calls := calls m @ [SlmOpen p (name m), SlmAllocateMem,
                               SlmAllocateRecordingBuffers n] @ load_calls m (Some n),
           loaded := True, built := True\<rparr>))
   \<and> SlmAllocateRecordingBuffers k \<notin> set (load_calls m a)
   \<and> (\<not> recording_in_use m \<longrightarrow>
        SlmAllocateRecordingBuffers k
          \<notin> set (drop (length (calls m)) (calls (snd (load env p a m)))))
   \<and> (recording_in_use m \<longrightarrow>
        fst (load env p None m) \<noteq> None
        \<and> SlmAllocateRecordingBuffers k
          \<notin> set (drop (length (calls m)) (calls (snd (load env p None m)))))"
proof (intro conjI impI)
  assume h: "\<not> loaded m \<and> recording_in_use m \<and> env (SlmOpen p (name m)) = None
      \<and> env SlmAllocateMem = None"
  then show "load env p None m =
        (Some (Exception (''Cannot use recording system without passing ''
                          @ ''number of recording timesteps to GeNNModel.load'')),
         m\<lparr>path_to_model := Some p,
           calls := calls m @ [SlmOpen p (name m), SlmAllocateMem]\<rparr>)"
    by (simp add: load_def invoke_def and_then_def)
next
  assume h: "\<not> loaded m \<and> recording_in_use m \<and> env (SlmOpen p (name m)) = None
      \<and> env SlmAllocateMem = None"
  then show "take (length (calls m) + 3) (calls (snd (load env p (Some n) m)))
        = calls m @ [SlmOpen p (name m), SlmAllocateMem, SlmAllocateRecordingBuffers n]"
    by (auto simp: load_def invoke_def invoke_all_eq and_then_def Let_def
             split: option.splits)
next
  assume h: "\<not> loaded m \<and> recording_in_use m"
  then show "load env p (Some n) m =
        (case raised env ([SlmOpen p (name m), SlmAllocateMem, SlmAllocateRecordingBuffers n]
                          @ load_calls m (Some n)) of
           None \<Rightarrow>
             (None,
              m\<lparr>path_to_model := Some p,
                calls := calls m @ [SlmOpen p (name m), SlmAllocateMem,
                                    SlmAllocateRecordingBuffers n] @ load_calls m (Some n),
                loaded := True, built := True\<rparr>)
         | Some e \<Rightarrow>
             (Some e,
              m\<lparr>path_to_model := Some p,
                calls := calls m
                  @ attempted env ([SlmOpen p (name m), SlmAllocateMem,
                                    SlmAllocateRecordingBuffers n] @ load_calls m (Some n))\<rparr>))"
    by (simp add: load_with_count)
next
  assume h: "\<not> loaded m \<and> recording_in_use m
      \<and> (\<forall>c \<in> set ([SlmOpen p (name m), SlmAllocateMem, SlmAllocateRecordingBuffers n]
                      @ load_calls m (Some n)). env c = None)"
  then have r: "raised env ([SlmOpen p (name m), SlmAllocateMem,
                             SlmAllocateRecordingBuffers n] @ load_calls m (Some n)) = None"
    by (intro raised_set) simp
  from h have "load env p (Some n) m =
        (case raised env ([SlmOpen p (name m), SlmAllocateMem, SlmAllocateRecordingBuffers n]
                          @ load_calls m (Some n)) of
           None \<Rightarrow>
             (None,
              m\<lparr>path_to_model := Some p,
                calls := calls m @ [SlmOpen p (name m), SlmAllocateMem,
                                    SlmAllocateRecordingBuffers n] @ load_calls m (Some n),
                loaded := True, built := True\<rparr>)
         | Some e \<Rightarrow>
             (Some e,
              m\<lparr>path_to_model := Some p,
                calls := calls m
                  @ attempted env ([SlmOpen p (name m), SlmAllocateMem,
                                    SlmAllocateRecordingBuffers n] @ load_calls m (Some n))\<rparr>))"
    by (simp add: load_with_count)
  then show "load env p (Some n) m =
        (None,
         m\<lparr>path_to_model := Some p,
           calls := calls m @ [SlmOpen p (name m), SlmAllocateMem,
                               SlmAllocateRecordingBuffers n] @ load_calls m (Some n),
           loaded := True, built := True\<rparr>)"
    by (simp only: r option.case)
next
  show "SlmAllocateRecordingBuffers k \<notin> set (load_calls m a)"
    by (rule load_calls_no_recording_buffers)
next
  assume nr: "\<not> recording_in_use m"
  have sub: "\<And>cs. SlmAllocateRecordingBuffers k \<notin> set cs \<Longrightarrow>
                  SlmAllocateRecordingBuffers k \<notin> set (attempted env cs)"
    using set_attempted by blast
  have lcs: "\<And>m'. SlmAllocateRecordingBuffers k \<notin> set (attempted env (load_calls m' a))"
    by (rule sub) (rule load_calls_no_recording_buffers)
  from nr show "SlmAllocateRecordingBuffers k
          \<notin> set (drop (length (calls m)) (calls (snd (load env p a m))))"
    by (auto simp: load_def invoke_def invoke_all_eq and_then_def lcs Let_def
             split: option.splits)
next
  assume "recording_in_use m"
  then show "fst (load env p None m) \<noteq> None"
    by (auto simp: load_def invoke_def invoke_all_eq and_then_def Let_def
             split: option.splits)
next
  assume "recording_in_use m"
  then show "SlmAllocateRecordingBuffers k
          \<notin> set (drop (length (calls m)) (calls (snd (load env p None m))))"
    by (auto simp: load_def invoke_def invoke_all_eq and_then_def Let_def
             split: option.splits)
qed

text \<open>
  The statement above on \<open>recording\<close>, which has the neuron population \<open>pop\<close> and
  recording in use, with 100 timesteps: in an environment where only \<open>step_time\<close>
  raises, \<open>load\<close> without the number raises the exception after two calls, and
  \<open>load(num_recording_timesteps=100)\<close> returns normally after its seven calls; in
  an environment where \<open>initialize\<close> raises, it makes the first five calls and raises
  what \<open>initialize\<close> raised, the model not loaded. On \<open>fresh\<close>, where recording
  is not in use, no recording buffer is allocated.
\<close>

theorem load_recording_witness:
  "\<not> loaded recording \<and> recording_in_use recording
   \<and> step_time_fails (SlmOpen ''./'' (name recording)) = None
   \<and> step_time_fails SlmAllocateMem = None
   \<and> load step_time_fails ''./'' None recording =
        (Some (Exception (''Cannot use recording system without passing ''
                          @ ''number of recording timesteps to GeNNModel.load'')),
         recording\<lparr>path_to_model := Some ''./'',
           calls := [SlmOpen ''./'' ''GeNNModel'', SlmAllocateMem]\<rparr>)
   \<and> take (length (calls recording) + 3)
        (calls (snd (load step_time_fails ''./'' (Some 100) recording)))
       = [SlmOpen ''./'' ''GeNNModel'', SlmAllocateMem, SlmAllocateRecordingBuffers 100]
   \<and> load step_time_fails ''./'' (Some 100) recording =
        (None,
         recording\<lparr>path_to_model := Some ''./'',
           calls := [SlmOpen ''./'' ''GeNNModel'', SlmAllocateMem,
                     SlmAllocateRecordingBuffers 100, LoadInitEgps Neuron ''pop'',
                     SlmInitialize, NeuronLoad ''pop'' (Some 100), SlmInitializeSparse],
           loaded := True, built := True\<rparr>)
   \<and> load initialize_fails ''./'' (Some 100) recording =
        (Some (Raised ''initialize''),
         recording\<lparr>path_to_model := Some ''./'',
           calls := [SlmOpen ''./'' ''GeNNModel'', SlmAllocateMem,
                     SlmAllocateRecordingBuffers 100, LoadInitEgps Neuron ''pop'',
                     SlmInitialize]\<rparr>)
   \<and> fst (load step_time_fails ''./'' None recording) \<noteq> None
   \<and> \<not> recording_in_use fresh
   \<and> SlmAllocateRecordingBuffers 100
        \<notin> set (drop (length (calls fresh))
                 (calls (snd (load step_time_fails ''./'' (Some 100) fresh))))"
proof -
  have h: "\<not> loaded recording \<and> recording_in_use recording"
    by (simp add: recording_def fresh_def)
  have f: "\<not> recording_in_use fresh" by (simp add: fresh_def)
  have c: "calls recording = [] \<and> name recording = ''GeNNModel''
           \<and> load_calls recording (Some 100)
               = [LoadInitEgps Neuron ''pop'', SlmInitialize, NeuronLoad ''pop'' (Some 100),
                  SlmInitializeSparse]"
    by (simp add: recording_def fresh_def load_calls_def)
  have q: "\<forall>c \<in> set ([SlmOpen ''./'' (name recording), SlmAllocateMem,
                    SlmAllocateRecordingBuffers 100] @ load_calls recording (Some 100)).
             step_time_fails c = None"
    using c by (simp add: step_time_fails_def)
  show ?thesis
    using h f c q
      load_recording [of recording step_time_fails "''./''" 100 100 None]
      load_recording [of recording initialize_fails "''./''" 100 100 None]
      load_recording [of fresh step_time_fails "''./''" 100 100 "Some 100"]
    by (simp add: step_time_fails_def initialize_fails_def)
qed

subsection \<open>Operations that need a loaded model\<close>

lemmas device_defs = step_time_def custom_update_def pull_connectivity_from_device_def
  push_spikes_to_device_def push_spike_events_to_device_def push_current_spikes_to_device_def
  push_current_spike_events_to_device_def push_connectivity_to_device_def
  push_var_to_device_def push_extra_global_param_to_device_def
  pull_recording_buffers_from_device_def

text \<open>
  C3. Each of \<open>step_time\<close>, \<open>custom_update\<close>, \<open>pull_connectivity_from_device\<close>,
  the seven \<open>push_\<dots>\<close> methods and \<open>pull_recording_buffers_from_device\<close>, called
  on a model that is not loaded, raises an \<open>Exception\<close> whose message starts with
  \<open>GeNN model has to be loaded before\<close>, makes no call to the runtime and leaves the
  model not loaded. On a loaded model with recording not in use,
  \<open>pull_recording_buffers_from_device\<close> raises \<open>Exception("Cannot pull recording
  buffer if recording system is not in use")\<close> and changes nothing.
\<close>

theorem device_requires_loaded:
  "(\<not> loaded m \<longrightarrow>
      (\<exists>what. fst (device env d m) =
                 Some (Exception (''GeNN model has to be loaded before '' @ what)))
      \<and> calls (snd (device env d m)) = calls m
      \<and> \<not> loaded (snd (device env d m)))
   \<and> (loaded m \<and> \<not> recording_in_use m \<longrightarrow>
        pull_recording_buffers_from_device env m =
          (Some (Exception ''Cannot pull recording buffer if recording system is not in use''),
           m))"
  by (cases d) (auto simp: device_defs split: option.splits)

text \<open>The statement above for \<open>step_time\<close> on \<open>fresh\<close>, and on \<open>running\<close>.\<close>

theorem device_requires_loaded_witness:
  "\<not> loaded fresh
   \<and> fst (device no_failure StepTime fresh)
       = Some (Exception ''GeNN model has to be loaded before stepping'')
   \<and> calls (snd (device no_failure StepTime fresh)) = calls fresh
   \<and> \<not> loaded (snd (device no_failure StepTime fresh))
   \<and> loaded running \<and> \<not> recording_in_use running
   \<and> pull_recording_buffers_from_device no_failure running =
        (Some (Exception ''Cannot pull recording buffer if recording system is not in use''),
         running)"
proof -
  have n: "\<not> loaded fresh" by (simp add: fresh_def)
  have l: "loaded running \<and> \<not> recording_in_use running"
    by (simp add: running_eq) (simp add: fresh_def)
  show ?thesis
    using n l device_requires_loaded [of fresh no_failure StepTime]
      device_requires_loaded [of running no_failure StepTime]
    by (simp add: step_time_def)
qed

text \<open>
  C7. On a loaded model, \<open>push_extra_global_param_to_device\<close> without \<open>size\<close>
  records the deprecation warning and passes the size 1 to the runtime; with a
  \<open>size\<close> it passes that size and records no warning. In both cases the call raises
  only what the runtime's \<open>push_extra_global_param\<close> raises.
\<close>

theorem push_egp_size:
  "loaded m \<Longrightarrow>
     push_extra_global_param_to_device env p e None m =
       (env (SlmPushExtraGlobalParam p e 1),
        m\<lparr>warnings := warnings m @ [size_deprecation],
          calls := calls m @ [SlmPushExtraGlobalParam p e 1]\<rparr>)
     \<and> push_extra_global_param_to_device env p e (Some s) m =
       (env (SlmPushExtraGlobalParam p e s),
        m\<lparr>calls := calls m @ [SlmPushExtraGlobalParam p e s]\<rparr>)"
  by (simp add: push_extra_global_param_to_device_def invoke_def)

text \<open>The statement above on \<open>running\<close>, without a size and with the size 7.\<close>

theorem push_egp_size_witness:
  "loaded running
   \<and> push_extra_global_param_to_device no_failure ''pop'' ''g'' None running =
       (None,
        running\<lparr>warnings := [size_deprecation],
          calls := calls running @ [SlmPushExtraGlobalParam ''pop'' ''g'' 1]\<rparr>)
   \<and> push_extra_global_param_to_device no_failure ''pop'' ''g'' (Some 7) running =
       (None,
        running\<lparr>calls := calls running @ [SlmPushExtraGlobalParam ''pop'' ''g'' 7]\<rparr>)"
proof -
  have l: "loaded running" by (simp add: running_eq)
  have w: "warnings running = []" by (simp add: running_eq) (simp add: fresh_def)
  show ?thesis
    using l w push_egp_size [OF l, of no_failure "''pop''" "''g''" 7]
    by (simp add: no_failure_def)
qed

text \<open>
  C10. On a model that is not loaded, \<open>push_extra_global_param_to_device\<close> without
  \<open>size\<close> raises \<open>Exception("GeNN model has to be loaded before pushing")\<close>, and
  the instance it leaves has the deprecation warning recorded: the warning comes before
  the test of the loaded flag. Nothing is passed to the runtime.
\<close>

theorem push_egp_warns_before_check:
  "\<not> loaded m \<Longrightarrow>
     push_extra_global_param_to_device env p e None m =
       (Some (Exception ''GeNN model has to be loaded before pushing''),
        m\<lparr>warnings := warnings m @ [size_deprecation]\<rparr>)"
  by (simp add: push_extra_global_param_to_device_def)

text \<open>The statement above on \<open>fresh\<close>.\<close>

theorem push_egp_warns_before_check_witness:
  "\<not> loaded fresh
   \<and> push_extra_global_param_to_device no_failure ''pop'' ''g'' None fresh =
       (Some (Exception ''GeNN model has to be loaded before pushing''),
        fresh\<lparr>warnings := [size_deprecation]\<rparr>)"
proof -
  have n: "\<not> loaded fresh" by (simp add: fresh_def)
  have w: "warnings fresh = []" by (simp add: fresh_def)
  show ?thesis
    using n w push_egp_warns_before_check [OF n, of no_failure "''pop''" "''g''"]
    by simp
qed

subsection \<open>build\<close>

lemmas add_defs = add_neuron_population_def add_synapse_population_def
  add_current_source_def add_custom_update_def

lemma build_rejected:
  "built m \<Longrightarrow> build w env p f m = (Some (Exception ''GeNN model already built''), m)"
  by (simp add: build_def)

lemma build_success_built:
  "fst (build w env p f m) = None \<Longrightarrow> built (snd (build w env p f m))"
  by (auto simp: build_def Let_def and_then_def invoke_def invoke_all_eq
           split: option.splits if_splits prod.splits)

lemma build_failure_unbuilt:
  "\<not> built m \<Longrightarrow> fst (build w env p f m) \<noteq> None \<Longrightarrow> \<not> built (snd (build w env p f m))"
  by (auto simp: build_def Let_def and_then_def invoke_def invoke_all_eq
           split: option.splits if_splits prod.splits)

lemma build_starts_with_finalize:
  "\<not> built m \<Longrightarrow>
   take (Suc (length (calls m))) (calls (snd (build w env p f m))) = calls m @ [Finalize]"
  by (auto simp: build_def Let_def and_then_def invoke_def invoke_all_eq
           split: option.splits if_splits prod.splits)

lemma device_built: "built (snd (device env d m)) = built m"
  by (cases d) (auto simp: device_defs invoke_def split: option.splits)

lemma load_built: "built m \<Longrightarrow> built (snd (load env p n m))"
  by (auto simp: load_def Let_def and_then_def invoke_def invoke_all_eq
           split: option.splits if_splits prod.splits)

lemma end_model_built: "built (snd (end_model w env m)) = built m"
  by (auto simp: end_model_def and_then_def invoke_all_eq
           split: option.splits pyval.splits prod.splits)

lemma exec_built: "built m \<Longrightarrow> built (snd (exec w env oper m))"
proof (cases oper)
  case (Device d)
  assume "built m"
  then show ?thesis using Device by (simp add: device_built)
next
  case End
  assume "built m"
  then show ?thesis using End by (simp add: end_model_built)
next
  case (Load p n)
  assume "built m"
  then show ?thesis using Load by (simp add: load_built)
qed (simp_all add: add_defs set_backend_name_def build_def slm_access_def invoke_def)

lemma run_built_no_success:
  "built m \<Longrightarrow> build_successes (fst (run w eops m)) = 0"
proof (induction eops arbitrary: m)
  case Nil
  show ?case by (simp add: build_successes_def)
next
  case (Cons eo eops)
  obtain env oper where eo: "eo = (env, oper)" by (cases eo)
  obtain r m' where ex: "exec w env oper m = (r, m')" by (cases "exec w env oper m")
  obtain rs m'' where rn: "run w eops m' = (rs, m'')" by (cases "run w eops m'")
  have b': "built m'" using exec_built [OF Cons.prems, of w env oper] ex by simp
  have rest: "build_successes rs = 0" using Cons.IH [OF b'] rn by simp
  have here: "\<And>p f. oper = Build p f \<Longrightarrow> r \<noteq> None"
    using ex Cons.prems by (auto simp: build_rejected)
  show ?case using eo ex rn rest here
    by (cases oper) (auto simp: build_successes_def)
qed

lemma run_at_most_once: "build_successes (fst (run w eops m)) \<le> 1"
proof (induction eops arbitrary: m)
  case Nil
  show ?case by (simp add: build_successes_def)
next
  case (Cons eo eops)
  obtain env oper where eo: "eo = (env, oper)" by (cases eo)
  obtain r m' where ex: "exec w env oper m = (r, m')" by (cases "exec w env oper m")
  obtain rs m'' where rn: "run w eops m' = (rs, m'')" by (cases "run w eops m'")
  have rest: "build_successes rs \<le> 1" using Cons.IH [of m'] rn by simp
  show ?case
  proof (cases "\<exists>p f. oper = Build p f \<and> r = None")
    case True
    then obtain p f where o: "oper = Build p f" and r: "r = None" by blast
    have "built m'" using build_success_built [of w env p f m] ex o r by simp
    then have "build_successes rs = 0" using run_built_no_success [of m' w eops] rn by simp
    then show ?thesis using eo ex rn o r by (simp add: build_successes_def)
  next
    case False
    then have "build_successes ((oper, r) # rs) = build_successes rs"
      by (cases oper) (auto simp: build_successes_def)
    then show ?thesis using eo ex rn rest by simp
  qed
qed

lemma build_fresh_bound:
  "build genn_bound_host no_failure ''./'' False fresh =
     (None, fresh\<lparr>path_to_model := Some ''./'',
        calls := [Finalize, Preferences ''single_threaded_cpu'',
                  CreateBackend ''single_threaded_cpu'' ''./GeNNModel_CODE'' [],
                  GenerateCode ''/pygenn/share'' ''./GeNNModel_CODE'' False,
                  Make (Some 4) ''./GeNNModel_CODE''],
        built := True\<rparr>)"
  by (simp add: build_def invoke_def invoke_all_eq and_then_None no_failure_def fresh_def
                genn_bound_host_def posix_host_def posixpath_join_def Let_def)

lemma build_fresh_posix:
  "build posix_host no_failure ''./'' False fresh =
     (Some (NameError ''genn''), fresh\<lparr>path_to_model := Some ''./'',
        calls := [Finalize, Preferences ''single_threaded_cpu'',
                  CreateBackend ''single_threaded_cpu'' ''./GeNNModel_CODE'' []]\<rparr>)"
  by (simp add: build_def invoke_def invoke_all_eq and_then_None no_failure_def fresh_def
                posix_host_def posixpath_join_def genn_model_globals_def Let_def)

text \<open>
  C2 (as the code has it). In every sequence of calls on one instance, run from any
  state and in any environments, at most one \<open>build\<close> returns without an
  exception: a \<open>build\<close> that returns normally has set the built flag, no method
  clears the flag, and \<open>build\<close> on an instance whose flag is set raises
  \<open>Exception("GeNN model already built")\<close> and changes nothing. A \<open>build\<close> that
  raises on an instance whose flag is not set leaves the flag unset, and \<open>build\<close> on
  an instance whose flag is not set is not refused: it goes on to \<open>finalize\<close>.
\<close>

theorem build_at_most_once:
  "build_successes (fst (run w eops m)) \<le> 1
   \<and> (built m \<longrightarrow> build w env p f m = (Some (Exception ''GeNN model already built''), m))
   \<and> (fst (build w env p f m) = None \<longrightarrow> built (snd (build w env p f m)))
   \<and> (built m \<longrightarrow> built (snd (exec w env oper m)))
   \<and> (\<not> built m \<and> fst (build w env p f m) \<noteq> None \<longrightarrow>
        \<not> built (snd (build w env p f m)))
   \<and> (\<not> built m \<longrightarrow>
        take (Suc (length (calls m))) (calls (snd (build w env p f m)))
          = calls m @ [Finalize])"
proof (intro conjI impI)
  show "build_successes (fst (run w eops m)) \<le> 1" by (rule run_at_most_once)
next
  assume "built m"
  then show "build w env p f m = (Some (Exception ''GeNN model already built''), m)"
    by (rule build_rejected)
next
  assume "fst (build w env p f m) = None"
  then show "built (snd (build w env p f m))" by (rule build_success_built)
next
  assume "built m"
  then show "built (snd (exec w env oper m))" by (rule exec_built)
next
  assume "\<not> built m \<and> fst (build w env p f m) \<noteq> None"
  then show "\<not> built (snd (build w env p f m))" by (simp add: build_failure_unbuilt)
next
  assume "\<not> built m"
  then show "take (Suc (length (calls m))) (calls (snd (build w env p f m)))
          = calls m @ [Finalize]"
    by (rule build_starts_with_finalize)
qed

text \<open>
  The statement above on a host where \<open>genn\<close> is bound (two calls of \<open>build\<close> on
  \<open>fresh\<close>: the first returns, the second is refused), on \<open>running\<close> (built by
  \<open>load\<close>) and on \<open>fresh\<close> with the namespace of the file, where \<open>build\<close>
  raises \<open>NameError\<close> at \<open>genn.generate_code\<close>.
\<close>

theorem build_at_most_once_witness:
  "build_successes (fst (run genn_bound_host
       [(no_failure, Build ''./'' False), (no_failure, Build ''./'' False)] fresh)) \<le> 1
   \<and> fst (run genn_bound_host
       [(no_failure, Build ''./'' False), (no_failure, Build ''./'' False)] fresh)
       = [(Build ''./'' False, None),
          (Build ''./'' False, Some (Exception ''GeNN model already built''))]
   \<and> built running
   \<and> build posix_host no_failure ''./'' False running
       = (Some (Exception ''GeNN model already built''), running)
   \<and> built (snd (exec posix_host no_failure (Device StepTime) running))
   \<and> fst (build genn_bound_host no_failure ''./'' False fresh) = None
   \<and> built (snd (build genn_bound_host no_failure ''./'' False fresh))
   \<and> \<not> built fresh
   \<and> fst (build posix_host no_failure ''./'' False fresh) \<noteq> None
   \<and> \<not> built (snd (build posix_host no_failure ''./'' False fresh))
   \<and> take (Suc (length (calls fresh)))
          (calls (snd (build posix_host no_failure ''./'' False fresh)))
       = calls fresh @ [Finalize]"
proof -
  have b: "built running" by (simp add: running_eq)
  have n: "\<not> built fresh" by (simp add: fresh_def)
  have s: "fst (build genn_bound_host no_failure ''./'' False fresh) = None"
    by (simp add: build_fresh_bound)
  have e: "fst (build posix_host no_failure ''./'' False fresh) \<noteq> None"
    by (simp add: build_fresh_posix)
  have r: "fst (run genn_bound_host
       [(no_failure, Build ''./'' False), (no_failure, Build ''./'' False)] fresh)
       = [(Build ''./'' False, None),
          (Build ''./'' False, Some (Exception ''GeNN model already built''))]"
    by (simp add: build_fresh_bound) (simp add: build_def)
  show ?thesis
    using b n s e r
      build_at_most_once [of genn_bound_host
         "[(no_failure, Build ''./'' False), (no_failure, Build ''./'' False)]" fresh
         no_failure "''./''" False "Device StepTime"]
      build_at_most_once [of posix_host "[]" running no_failure "''./''" False
         "Device StepTime"]
      build_at_most_once [of posix_host "[]" fresh no_failure "''./''" False
         "Device StepTime"]
    by simp
qed

text \<open>
  C2 (as the claim has it) fails after a first \<open>build\<close> that raised in
  \<open>finalize\<close>: the second \<open>build\<close> is not refused with the already-built
  exception. It calls \<open>finalize\<close>, \<open>Preferences\<close> and \<open>create_backend\<close> again;
  with the namespace of the file it then raises \<open>NameError\<close> for \<open>genn\<close>, and
  where \<open>genn\<close> is bound it returns normally.
\<close>

theorem build_after_failed_build_counterexample:
  "fst (run posix_host
          [(finalize_fails, Build ''./'' False), (no_failure, Build ''./'' False)] fresh)
     = [(Build ''./'' False, Some (Raised ''finalize'')),
        (Build ''./'' False, Some (NameError ''genn''))]
   \<and> calls (snd (run posix_host
          [(finalize_fails, Build ''./'' False), (no_failure, Build ''./'' False)] fresh))
     = [Finalize, Finalize, Preferences ''single_threaded_cpu'',
        CreateBackend ''single_threaded_cpu'' ''./GeNNModel_CODE'' []]
   \<and> fst (run genn_bound_host
          [(finalize_fails, Build ''./'' False), (no_failure, Build ''./'' False)] fresh)
     = [(Build ''./'' False, Some (Raised ''finalize'')), (Build ''./'' False, None)]"
  by (simp add: build_def invoke_def invoke_all_eq and_then_def no_failure_def fresh_def
                finalize_fails_def genn_bound_host_def posix_host_def posixpath_join_def
                genn_model_globals_def Let_def)

subsection \<open>Registration\<close>

text \<open>
  C4 (as the code has it). On a model that is not built: \<open>add_synapse_population\<close>
  whose \<open>source\<close> is a string that is not a key of \<open>neuron_populations\<close> raises
  \<open>ValueError("'source' neuron group '<name>' not found")\<close>; when the source is
  valid and the \<open>target\<close> is such a string, the same with \<open>'target'\<close>;
  \<open>add_current_source\<close> whose \<open>pop\<close> is such a string, the same with \<open>'pop'\<close>.
  In each case the model is left as it was. A reference passed as a \<open>NeuronGroup\<close>
  object is accepted as it is, without a look-up in the registry.
\<close>

theorem missing_neuron_group_by_name:
  "\<not> built m \<Longrightarrow>
     (map_of (neuron_populations m) s = None \<longrightarrow>
        add_synapse_population env n (Str s) tgt g m =
          (Some (ValueError (quoted ''source'' @ '' neuron group '' @ quoted s
                             @ '' not found'')), m))
     \<and> (validate_neuron_group m src ''source'' = Inr x
          \<and> map_of (neuron_populations m) s = None \<longrightarrow>
        add_synapse_population env n src (Str s) g m =
          (Some (ValueError (quoted ''target'' @ '' neuron group '' @ quoted s
                             @ '' not found'')), m))
     \<and> (map_of (neuron_populations m) s = None \<longrightarrow>
        add_current_source env n (Str s) g m =
          (Some (ValueError (quoted ''pop'' @ '' neuron group '' @ quoted s
                             @ '' not found'')), m))
     \<and> validate_neuron_group m (NeuronGroupObj h) c = Inr h"
  by (simp add: add_synapse_population_def add_current_source_def validate_neuron_group_def)

text \<open>
  The statement above on \<open>fresh\<close>, whose registry is empty, for the name \<open>n1\<close>.
\<close>

theorem missing_neuron_group_by_name_witness:
  "\<not> built fresh \<and> map_of (neuron_populations fresh) ''n1'' = None
   \<and> add_synapse_population no_failure ''syn'' (Str ''n1'') (Str ''n2'') syn fresh =
        (Some (ValueError (quoted ''source'' @ '' neuron group '' @ quoted ''n1''
                           @ '' not found'')), fresh)
   \<and> validate_neuron_group fresh (NeuronGroupObj stray) ''source'' = Inr stray
   \<and> add_synapse_population no_failure ''syn'' (NeuronGroupObj stray) (Str ''n1'') syn fresh =
        (Some (ValueError (quoted ''target'' @ '' neuron group '' @ quoted ''n1''
                           @ '' not found'')), fresh)
   \<and> add_current_source no_failure ''cs'' (Str ''n1'') syn fresh =
        (Some (ValueError (quoted ''pop'' @ '' neuron group '' @ quoted ''n1''
                           @ '' not found'')), fresh)"
proof -
  have n: "\<not> built fresh" by (simp add: fresh_def)
  have a: "map_of (neuron_populations fresh) ''n1'' = None" by (simp add: fresh_def)
  show ?thesis
    using n a
      missing_neuron_group_by_name [OF n, where s = "''n1''" and env = no_failure
        and n = "''syn''" and tgt = "Str ''n2''" and g = syn and src = "NeuronGroupObj stray"
        and x = stray and h = stray and c = "''source''"]
      missing_neuron_group_by_name [OF n, where s = "''n1''" and env = no_failure
        and n = "''cs''" and g = syn]
    by simp
qed

text \<open>
  C4 (as the claim has it) fails for a handle: \<open>stray\<close> is a \<open>NeuronGroup\<close>
  object that is in no registry of \<open>fresh\<close> (the registry is empty), and both
  registrations that refer to it return normally and store the new population.
\<close>

theorem stray_handle_counterexample:
  "neuron_populations fresh = [] \<and> \<not> built fresh
   \<and> add_synapse_population no_failure ''syn'' (NeuronGroupObj stray) (NeuronGroupObj stray)
        syn fresh =
        (None, fresh\<lparr>synapse_populations := [(''syn'', syn)],
                      calls := [SuperAddSynapsePopulation ''syn'' ''elsewhere''
                                  ''elsewhere'']\<rparr>)
   \<and> add_current_source no_failure ''cs'' (NeuronGroupObj stray) syn fresh =
        (None, fresh\<lparr>current_sources := [(''cs'', syn)],
                      calls := [SuperAddCurrentSource ''cs'' ''elsewhere'']\<rparr>)"
  by (simp add: add_synapse_population_def add_current_source_def validate_neuron_group_def
                invoke_def and_then_def no_failure_def fresh_def stray_def)

subsection \<open>The backend\<close>




subsection \<open>Precision\<close>

text \<open>
  C8 (what the code does). \<open>GeNNModel(precision="half", time_precision="float")\<close>
  is constructed: the only test is on the time precision, and \<open>scalar\<close> becomes
  \<open>float64\<close>. An unsupported time precision, given or taken over from
  \<open>precision\<close>, does end construction, with the \<open>IndexError\<close> of the
  \<open>format\<close> call.
\<close>

theorem init_accepts_unsupported_precision:
  "init posix_host ''half'' ''GeNNModel'' None (Some ''float'') []
     = Inr (fresh\<lparr>scalar := float64\<rparr>)
   \<and> init posix_host ''float'' ''GeNNModel'' None (Some ''half'') [] = Inl IndexError
   \<and> init posix_host ''half'' ''GeNNModel'' None None [] = Inl IndexError"
  by (simp add: init_def set_backend_name_def posix_host_def fresh_def)

subsection \<open>end\<close>

text \<open>
  C9 (what the code does). In the namespace of the file, \<open>end()\<close> raises
  \<open>NameError\<close> for \<open>custom_updates\<close> while it builds the list of registries:
  on an instance whose neuron population \<open>pop\<close> has the runtime-allocated parameter
  \<open>auto\<close>, the loops would free \<open>auto\<close>, and nothing is freed.
\<close>

theorem end_frees_nothing:
  "end_model posix_host no_failure with_egp = (Some (NameError ''custom_updates''), with_egp)
   \<and> group_frees (neuron_populations with_egp) = [SlmFreeExtraGlobalParam ''pop'' ''auto'']
   \<and> calls (snd (end_model posix_host no_failure with_egp)) = []"
  by (simp add: end_model_def posix_host_def genn_model_globals_def with_egp_def fresh_def
                group_frees_def egp_frees_def)

end
